theory Spec2Isabelle
  imports Complex_Main "HOL-Library.Sublist" "HOL-Library.Product_Lexorder"
begin

section \<open>Values of the Python program\<close>

text \<open>
  The program is \<^verbatim>\<open>stock_tracker.py\<close>: class \<^verbatim>\<open>StockTracker\<close> over a SQLite file,
  the yfinance provider, SMTP and the Telegram HTTP API.

  Python numbers are modelled as exact rationals: a float is read as the decimal it was
  written as, and arithmetic is exact. Binary representation error, NaN, infinities and
  the sign of zero are outside the model. Strings are byte lists (UTF-8).

  A value read out of a provider dictionary or a configuration dictionary is \<open>None\<close>,
  a number or a string.
\<close>

datatype pyval = PNone | PNum rat | PStr string

datatype py_error = TypeError | KeyError | ValueError

text \<open>The outcome of a call into a library the program does not control.\<close>

datatype 'a outcome = Raised | Returned 'a

text \<open>A dictionary with string keys, as the list of its items.\<close>

type_synonym pydict = "(string \<times> pyval) list"

text \<open>\<^verbatim>\<open>d.get(k)\<close> and \<^verbatim>\<open>d.get(k, default)\<close>.\<close>

definition dict_get :: "pydict \<Rightarrow> string \<Rightarrow> pyval" where
  "dict_get d k = (case map_of d k of None \<Rightarrow> PNone | Some v \<Rightarrow> v)"

definition dict_get_default :: "pydict \<Rightarrow> string \<Rightarrow> pyval \<Rightarrow> pyval" where
  "dict_get_default d k dflt = (case map_of d k of None \<Rightarrow> dflt | Some v \<Rightarrow> v)"

text \<open>\<^verbatim>\<open>d[k]\<close> raises KeyError on a missing key.\<close>

definition dict_index :: "pydict \<Rightarrow> string \<Rightarrow> py_error + pyval" where
  "dict_index d k = (case map_of d k of None \<Rightarrow> Inl KeyError | Some v \<Rightarrow> Inr v)"

text \<open>Truth value testing: \<open>None\<close>, zero and the empty string are false.\<close>

fun truthy :: "pyval \<Rightarrow> bool" where
  "truthy PNone = False"
| "truthy (PNum x) = (x \<noteq> 0)"
| "truthy (PStr s) = (s \<noteq> [])"

text \<open>\<^verbatim>\<open>a or b\<close>.\<close>

definition py_or :: "pyval \<Rightarrow> pyval \<Rightarrow> pyval" where
  "py_or a b = (if truthy a then a else b)"

text \<open>A nullable TEXT column (\<open>None\<close> is NULL) and an optional dictionary argument.\<close>

fun truthy_text :: "string option \<Rightarrow> bool" where
  "truthy_text None = False"
| "truthy_text (Some s) = (s \<noteq> [])"

fun truthy_dict :: "pydict option \<Rightarrow> bool" where
  "truthy_dict None = False"
| "truthy_dict (Some d) = (d \<noteq> [])"

text \<open>\<^verbatim>\<open>str.upper()\<close> on ASCII letters.\<close>

definition upper_char :: "char \<Rightarrow> char" where
  "upper_char c =
     (let n = (of_char c :: nat) in if 97 \<le> n \<and> n \<le> 122 then char_of (n - 32) else c)"

definition upper :: "string \<Rightarrow> string" where
  "upper s = map upper_char s"

text \<open>
  \<^verbatim>\<open>round(x, 2)\<close>: to the nearest multiple of 0.01, a tie to the even neighbour.
\<close>

definition py_round2 :: "rat \<Rightarrow> rat" where
  "py_round2 x =
     (let n = \<lfloor>x * 100\<rfloor>; f = x * 100 - of_int n
      in if f < 1 / 2 then of_int n / 100
         else if 1 / 2 < f then of_int (n + 1) / 100
         else if even n then of_int n / 100 else of_int (n + 1) / 100)"


subsection \<open>Rendering numbers and times as text\<close>

definition digit_char :: "nat \<Rightarrow> char" where
  "digit_char d = ''0123456789'' ! (d mod 10)"

fun digits :: "nat \<Rightarrow> string" where
  "digits n = (if n < 10 then [digit_char n] else digits (n div 10) @ [digit_char (n mod 10)])"

declare digits.simps [simp del]

text \<open>Two digits, a leading zero added: \<^verbatim>\<open>%m\<close>, \<^verbatim>\<open>%d\<close>, \<^verbatim>\<open>%H\<close>, \<^verbatim>\<open>%M\<close>, \<^verbatim>\<open>%S\<close>.\<close>

definition pad2 :: "nat \<Rightarrow> string" where
  "pad2 n = (if n < 10 then CHR ''0'' # digits n else digits n)"

text \<open>
  The format \<^verbatim>\<open>+.2f\<close>: a sign always, the integer part, a point and exactly two
  decimals, the value rounded to them.
\<close>

definition format_signed_2f :: "rat \<Rightarrow> string" where
  "format_signed_2f x =
     (let c = \<lfloor>py_round2 x * 100\<rfloor>; m = nat \<bar>c\<bar>
      in (if c < 0 then CHR ''-'' else CHR ''+'') # digits (m div 100) @ ''.''
           @ [digit_char (m mod 100 div 10), digit_char (m mod 10)])"

text \<open>
  The decimals of a fraction below one, at most \<open>k\<close> of them, stopping when nothing is
  left.
\<close>

fun frac_digits :: "nat \<Rightarrow> rat \<Rightarrow> string" where
  "frac_digits 0 f = []"
| "frac_digits (Suc k) f =
     (if f = 0 then []
      else digit_char (nat \<lfloor>f * 10\<rfloor>) # frac_digits k (f * 10 - of_int \<lfloor>f * 10\<rfloor>))"

text \<open>
  \<^verbatim>\<open>str(x)\<close> of a float whose shortest decimal has at most sixteen decimals, in the
  range where Python prints positional notation: the integer part, a point, and the
  decimals without trailing zeros but at least one (\<open>200.0\<close>, \<open>199.99\<close>, \<open>0.5\<close>).
\<close>

definition str_float :: "rat \<Rightarrow> string" where
  "str_float x =
     (let a = \<bar>x\<bar>; ds = frac_digits 16 (a - of_int \<lfloor>a\<rfloor>)
      in (if x < 0 then ''-'' else '''') @ digits (nat \<lfloor>a\<rfloor>) @ ''.''
           @ (if ds = [] then ''0'' else ds))"

record datetime =
  year :: nat
  month :: nat
  day :: nat
  hour :: nat
  minute :: nat
  second :: nat
  microsecond :: nat

text \<open>\<^verbatim>\<open>strftime('%Y-%m-%d %H:%M:%S')\<close>.\<close>

definition strftime :: "datetime \<Rightarrow> string" where
  "strftime t =
     digits (year t) @ ''-'' @ pad2 (month t) @ ''-'' @ pad2 (day t) @ '' ''
       @ pad2 (hour t) @ '':'' @ pad2 (minute t) @ '':'' @ pad2 (second t)"

text \<open>
  The order of two stored timestamps. SQLite keeps a \<^verbatim>\<open>datetime\<close> as the text
  \<^verbatim>\<open>YYYY-MM-DD HH:MM:SS[.ffffff]\<close> and compares texts; on such texts that is the
  lexicographic order of the fields.
\<close>

definition dt_key :: "datetime \<Rightarrow> nat \<times> nat \<times> nat \<times> nat \<times> nat \<times> nat \<times> nat" where
  "dt_key t = (year t, month t, day t, hour t, minute t, second t, microsecond t)"

text \<open>\<^verbatim>\<open>str.strip()\<close>: whitespace removed at both ends.\<close>

definition is_space :: "char \<Rightarrow> bool" where
  "is_space c = (c \<in> set [CHR '' '', CHR 0x09, CHR 0x0A, CHR 0x0B, CHR 0x0C, CHR 0x0D])"

definition py_strip :: "string \<Rightarrow> string" where
  "py_strip s = rev (dropWhile is_space (rev (dropWhile is_space s)))"

section \<open>The database\<close>

text \<open>
  The three tables of \<^verbatim>\<open>init_database\<close>, each a list of rows in rowid order, with the
  AUTOINCREMENT counter SQLite keeps for it (the largest rowid the table ever held).
\<close>

record stock_row =
  stock_id :: nat
  stock_symbol :: string
  stock_price :: rat
  stock_change_percent :: rat
  stock_volume :: pyval
  stock_timestamp :: datetime

record alert =
  alert_id :: nat
  alert_symbol :: string
  alert_type :: string
  threshold :: rat
  email :: "string option"
  telegram_chat_id :: "string option"
  is_active :: bool
  created_at :: datetime

record watch_row =
  watch_id :: nat
  watch_symbol :: string
  added_at :: datetime

record db =
  stocks :: "stock_row list"
  stocks_seq :: nat
  alerts :: "alert list"
  alerts_seq :: nat
  watchlist :: "watch_row list"
  watchlist_seq :: nat

text \<open>
  Every method opens the database inside \<^verbatim>\<open>try\<close> and catches every exception. The
  flag \<open>ok\<close> of a method says whether its statements ran to the commit; when they did
  not, the method logs, changes nothing and returns its default.
\<close>

definition init_database :: db where
  "init_database =
     \<lparr>stocks = [], stocks_seq = 0, alerts = [], alerts_seq = 0,
      watchlist = [], watchlist_seq = 0\<rparr>"

text \<open>The rowid an AUTOINCREMENT table gives its next row.\<close>

definition next_rowid :: "nat \<Rightarrow> nat list \<Rightarrow> nat" where
  "next_rowid seq ids = Suc (fold max ids seq)"

text \<open>\<^verbatim>\<open>add_to_watchlist\<close>: INSERT OR IGNORE of the upper-cased symbol (the column is UNIQUE).\<close>

definition add_to_watchlist :: "bool \<Rightarrow> datetime \<Rightarrow> db \<Rightarrow> string \<Rightarrow> bool \<times> db" where
  "add_to_watchlist ok now d s =
     (if \<not> ok then (False, d)
      else if upper s \<in> set (map watch_symbol (watchlist d)) then (True, d)
      else
        (let i = next_rowid (watchlist_seq d) (map watch_id (watchlist d))
         in (True, d\<lparr>watchlist := watchlist d @ [\<lparr>watch_id = i, watch_symbol = upper s, added_at = now\<rparr>],
                     watchlist_seq := i\<rparr>)))"

definition remove_from_watchlist :: "bool \<Rightarrow> db \<Rightarrow> string \<Rightarrow> bool \<times> db" where
  "remove_from_watchlist ok d s =
     (if \<not> ok then (False, d)
      else (True, d\<lparr>watchlist := filter (\<lambda>r. watch_symbol r \<noteq> upper s) (watchlist d)\<rparr>))"

text \<open>\<^verbatim>\<open>get_watchlist\<close>: the symbols ordered by \<^verbatim>\<open>added_at\<close>; the empty list on an error.\<close>

definition get_watchlist :: "bool \<Rightarrow> db \<Rightarrow> string list" where
  "get_watchlist ok d =
     (if ok then map watch_symbol (sort_key (\<lambda>r. dt_key (added_at r)) (watchlist d)) else [])"

section \<open>Fetching a quote\<close>

text \<open>
  What yfinance answers for one symbol: \<^verbatim>\<open>ticker.info\<close> (a dictionary, or an
  exception) and the \<^verbatim>\<open>Close\<close> column of \<^verbatim>\<open>ticker.history(period="1d", interval="1m")\<close>
  (oldest first, or an exception).
\<close>

record ticker =
  ticker_info :: "pydict outcome"
  ticker_history :: "rat list outcome"

text \<open>The dictionary \<^verbatim>\<open>get_stock_data\<close> returns.\<close>

record quote =
  symbol :: string
  price :: rat
  change :: rat
  change_percent :: rat
  volume :: pyval
  market_cap :: pyval
  pe_ratio :: pyval
  timestamp :: datetime

text \<open>
  Lines 119 to 126: the current price. \<open>None\<close> is the early \<^verbatim>\<open>return None\<close> or an
  exception of \<^verbatim>\<open>ticker.history\<close>, which the \<^verbatim>\<open>except\<close> of line 142 turns into
  \<^verbatim>\<open>return None\<close>.
\<close>

definition resolve_price :: "ticker \<Rightarrow> pydict \<Rightarrow> pyval option" where
  "resolve_price t info =
     (let current_price = py_or (dict_get info ''currentPrice'') (dict_get info ''regularMarketPrice'')
      in if \<not> truthy current_price then
           (case ticker_history t of
              Raised \<Rightarrow> None
            | Returned hist \<Rightarrow> if hist \<noteq> [] then Some (PNum (last hist)) else None)
         else Some current_price)"

text \<open>Line 130.\<close>

definition percent_change :: "rat \<Rightarrow> rat \<Rightarrow> rat" where
  "percent_change current_price previous_close =
     (if previous_close \<noteq> 0 then (current_price - previous_close) / previous_close * 100 else 0)"

text \<open>
  \<^verbatim>\<open>get_stock_data\<close>. Subtracting anything but two numbers is a TypeError, caught by
  line 142 like every other exception: the result is \<open>None\<close>.
\<close>

definition get_stock_data :: "ticker \<Rightarrow> datetime \<Rightarrow> string \<Rightarrow> quote option" where
  "get_stock_data t now s =
     (case ticker_info t of
        Raised \<Rightarrow> None
      | Returned info \<Rightarrow>
          (case resolve_price t info of
             None \<Rightarrow> None
           | Some current_price \<Rightarrow>
               (case (current_price, dict_get_default info ''previousClose'' current_price) of
                  (PNum cp, PNum previous_close) \<Rightarrow>
                    Some \<lparr>symbol = upper s,
                          price = py_round2 cp,
                          change = py_round2 (cp - previous_close),
                          change_percent = py_round2 (percent_change cp previous_close),
                          volume = dict_get_default info ''volume'' (PNum 0),
                          market_cap = dict_get info ''marketCap'',
                          pe_ratio = dict_get info ''trailingPE'',
                          timestamp = now\<rparr>
                | _ \<Rightarrow> None)))"

text \<open>\<^verbatim>\<open>store_stock_data\<close>: one INSERT into \<^verbatim>\<open>stocks\<close>.\<close>

definition store_stock_data :: "bool \<Rightarrow> db \<Rightarrow> quote \<Rightarrow> db" where
  "store_stock_data ok d stock_data =
     (if \<not> ok then d
      else
        (let i = next_rowid (stocks_seq d) (map stock_id (stocks d))
         in d\<lparr>stocks := stocks d @
                  [\<lparr>stock_id = i, stock_symbol = symbol stock_data, stock_price = price stock_data,
                    stock_change_percent = change_percent stock_data,
                    stock_volume = volume stock_data, stock_timestamp = timestamp stock_data\<rparr>],
               stocks_seq := i\<rparr>))"

text \<open>
  \<^verbatim>\<open>get_historical_data\<close>: the rows of a symbol from \<open>cutoff_date\<close> on, ordered by
  timestamp (rows with equal timestamps in rowid order); the empty frame on an error.
  \<open>cutoff_date\<close> is the value of \<^verbatim>\<open>datetime.now() - timedelta(days=days)\<close> of line 322.
\<close>

definition get_historical_data :: "bool \<Rightarrow> db \<Rightarrow> string \<Rightarrow> datetime \<Rightarrow> stock_row list" where
  "get_historical_data ok d s cutoff_date =
     (if ok then
        sort_key (\<lambda>r. dt_key (stock_timestamp r))
          (filter (\<lambda>r. stock_symbol r = upper s \<and> dt_key cutoff_date \<le> dt_key (stock_timestamp r))
             (stocks d))
      else [])"

section \<open>Alerts\<close>

definition create_alert ::
  "bool \<Rightarrow> datetime \<Rightarrow> db \<Rightarrow> string \<Rightarrow> string \<Rightarrow> rat \<Rightarrow> string option \<Rightarrow> string option \<Rightarrow> bool \<times> db" where
  "create_alert ok now d s atype thr em chat =
     (if \<not> ok then (False, d)
      else
        (let i = next_rowid (alerts_seq d) (map alert_id (alerts d))
         in (True, d\<lparr>alerts := alerts d @
                        [\<lparr>alert_id = i, alert_symbol = upper s, alert_type = atype, threshold = thr,
                          email = em, telegram_chat_id = chat, is_active = True, created_at = now\<rparr>],
                     alerts_seq := i\<rparr>)))"

text \<open>\<^verbatim>\<open>get_active_alerts\<close>: the rows with \<^verbatim>\<open>is_active = 1\<close>; the empty list on an error.\<close>

definition get_active_alerts :: "bool \<Rightarrow> db \<Rightarrow> alert list" where
  "get_active_alerts ok d = (if ok then filter is_active (alerts d) else [])"

text \<open>\<^verbatim>\<open>deactivate_alert\<close>: UPDATE alerts SET is_active = 0 WHERE id = ?.\<close>

definition deactivate_alert :: "bool \<Rightarrow> db \<Rightarrow> nat \<Rightarrow> db" where
  "deactivate_alert ok d i =
     (if ok then d\<lparr>alerts := map (\<lambda>a. if alert_id a = i then a\<lparr>is_active := False\<rparr> else a) (alerts d)\<rparr>
      else d)"

text \<open>Lines 262 to 272 of \<^verbatim>\<open>check_alerts\<close>: the value of \<^verbatim>\<open>triggered\<close>.\<close>

definition triggered :: "quote \<Rightarrow> alert \<Rightarrow> bool" where
  "triggered stock_data a =
     (let current_price = price stock_data
      in if alert_type a = ''above'' \<and> current_price \<ge> threshold a then True
         else if alert_type a = ''below'' \<and> current_price \<le> threshold a then True
         else if alert_type a = ''change_above'' \<and> change_percent stock_data \<ge> threshold a then True
         else if alert_type a = ''change_below'' \<and> change_percent stock_data \<le> threshold a then True
         else False)"

text \<open>
  The message of lines 275 to 284. The two signs of the first line are the eight bytes
  the source file holds there.
\<close>

definition banner :: string where
  "banner = [CHR 0xC3, CHR 0xB0, CHR 0xC5, CHR 0xB8, CHR 0xC5, CHR 0xA1, CHR 0xC2, CHR 0xA8]"

definition newline :: string where
  "newline = [CHR 0x0A]"

definition message_lines :: "quote \<Rightarrow> alert \<Rightarrow> string" where
  "message_lines stock_data a =
     banner @ '' Stock Alert Triggered! '' @ banner @ newline @ newline
       @ ''Symbol: '' @ symbol stock_data @ newline
       @ ''Current Price: $'' @ str_float (price stock_data) @ newline
       @ ''Change: '' @ format_signed_2f (change stock_data)
       @ '' ('' @ format_signed_2f (change_percent stock_data) @ ''%)'' @ newline
       @ ''Alert Type: '' @ alert_type a @ newline
       @ ''Threshold: '' @ str_float (threshold a) @ newline
       @ ''Time: '' @ strftime (timestamp stock_data)"

definition alert_message :: "quote \<Rightarrow> alert \<Rightarrow> string" where
  "alert_message stock_data a =
     py_strip (newline @ message_lines stock_data a @ newline @ replicate 16 (CHR '' ''))"

subsection \<open>The transports\<close>

record smtp_request =
  smtp_server :: pyval
  smtp_port :: pyval
  sender_email :: pyval
  sender_password :: pyval
  rcpt :: string
  subject :: string
  body :: string

record telegram_request =
  url :: string
  chat_id :: string
  message_text :: string

text \<open>
  What one call of \<^verbatim>\<open>check_alerts\<close> meets outside the program: whether the SELECT of
  \<^verbatim>\<open>get_active_alerts\<close> runs, whether the SMTP conversation for a mail runs to its end
  (\<open>False\<close>: some step raised), what the Telegram API answers to a POST (a status code,
  or an exception of \<^verbatim>\<open>requests.post\<close>), and whether the UPDATE of
  \<^verbatim>\<open>deactivate_alert\<close> for an alert id runs.
\<close>

record world =
  select_ok :: bool
  smtp :: "smtp_request \<Rightarrow> bool"
  http_post :: "telegram_request \<Rightarrow> nat outcome"
  update_ok :: "nat \<Rightarrow> bool"

text \<open>What the program did, in the order it did it.\<close>

datatype event =
  Fetched string bool
| Stored quote
| Checked quote
| Email smtp_request bool
| Telegram telegram_request bool
| Deactivate nat

record run =
  raised :: "py_error option"
  trace :: "event list"
  store :: db

text \<open>\<^verbatim>\<open>send_email_alert\<close>: \<open>True\<close> when the mail went out, \<open>False\<close> on any exception.\<close>

definition send_email_alert ::
  "world \<Rightarrow> string \<Rightarrow> string \<Rightarrow> string \<Rightarrow> pyval \<Rightarrow> pyval \<Rightarrow> pyval \<Rightarrow> pyval \<Rightarrow> smtp_request \<times> bool" where
  "send_email_alert w em subj message server port sender password =
     (let req = \<lparr>smtp_server = server, smtp_port = port, sender_email = sender,
                 sender_password = password, rcpt = em, subject = subj, body = message\<rparr>
      in (req, smtp w req))"

text \<open>\<^verbatim>\<open>str(v)\<close> inside an f-string.\<close>

fun py_str :: "pyval \<Rightarrow> string" where
  "py_str PNone = ''None''"
| "py_str (PNum x) = str_float x"
| "py_str (PStr s) = s"

text \<open>
  \<^verbatim>\<open>send_telegram_alert\<close>: \<open>True\<close> on status 200, \<open>False\<close> on another status or an
  exception.
\<close>

definition send_telegram_alert :: "world \<Rightarrow> string \<Rightarrow> string \<Rightarrow> pyval \<Rightarrow> telegram_request \<times> bool" where
  "send_telegram_alert w chat message bot_token =
     (let req = \<lparr>url = ''https://api.telegram.org/bot'' @ py_str bot_token @ ''/sendMessage'',
                 chat_id = chat, message_text = message\<rparr>
      in (req, (case http_post w req of Raised \<Rightarrow> False | Returned code \<Rightarrow> code = 200)))"

text \<open>
  Lines 287 to 293. The call passes \<^verbatim>\<open>**email_config\<close>: a key that is not one of the
  four keyword parameters of \<^verbatim>\<open>send_email_alert\<close> is a TypeError of the call itself,
  outside the \<^verbatim>\<open>try\<close> of the callee.
\<close>

definition email_keywords :: "string list" where
  "email_keywords = [''smtp_server'', ''smtp_port'', ''sender_email'', ''sender_password'']"

definition notify_email :: "world \<Rightarrow> quote \<Rightarrow> alert \<Rightarrow> string \<Rightarrow> pydict option \<Rightarrow> py_error + event list" where
  "notify_email w stock_data a message email_config =
     (case (email a, email_config) of
        (Some em, Some cfg) \<Rightarrow>
          if em \<noteq> [] \<and> cfg \<noteq> [] then
            (if list_all (\<lambda>k. k \<in> set email_keywords) (map fst cfg) then
               (let (req, sent) =
                      send_email_alert w em (''Stock Alert: '' @ symbol stock_data) message
                        (dict_get_default cfg ''smtp_server'' (PStr ''smtp.gmail.com''))
                        (dict_get_default cfg ''smtp_port'' (PNum 587))
                        (dict_get_default cfg ''sender_email'' (PStr []))
                        (dict_get_default cfg ''sender_password'' (PStr []))
                in Inr [Email req sent])
             else Inl TypeError)
          else Inr []
      | _ \<Rightarrow> Inr [])"

text \<open>
  Lines 296 to 301. \<^verbatim>\<open>telegram_config['bot_token']\<close> is evaluated by the caller: a
  missing key is a KeyError outside any \<^verbatim>\<open>try\<close>.
\<close>

definition notify_telegram :: "world \<Rightarrow> alert \<Rightarrow> string \<Rightarrow> pydict option \<Rightarrow> py_error + event list" where
  "notify_telegram w a message telegram_config =
     (case (telegram_chat_id a, telegram_config) of
        (Some chat, Some cfg) \<Rightarrow>
          if chat \<noteq> [] \<and> cfg \<noteq> [] then
            (case dict_index cfg ''bot_token'' of
               Inl e \<Rightarrow> Inl e
             | Inr bot_token \<Rightarrow>
                 (let (req, sent) = send_telegram_alert w chat message bot_token
                  in Inr [Telegram req sent]))
          else Inr []
      | _ \<Rightarrow> Inr [])"

text \<open>
  The loop of \<^verbatim>\<open>check_alerts\<close> over the alerts read at its start. An exception leaves
  the loop and the method; what was done before it stays done.
\<close>

fun check_loop :: "world \<Rightarrow> quote \<Rightarrow> pydict option \<Rightarrow> pydict option \<Rightarrow> alert list \<Rightarrow> db \<Rightarrow> run" where
  "check_loop w stock_data email_config telegram_config [] d =
     \<lparr>raised = None, trace = [], store = d\<rparr>"
| "check_loop w stock_data email_config telegram_config (a # rest) d =
     (if alert_symbol a \<noteq> symbol stock_data then
        check_loop w stock_data email_config telegram_config rest d
      else if \<not> triggered stock_data a then
        check_loop w stock_data email_config telegram_config rest d
      else
        (let message = alert_message stock_data a in
         case notify_email w stock_data a message email_config of
           Inl e \<Rightarrow> \<lparr>raised = Some e, trace = [], store = d\<rparr>
         | Inr mails \<Rightarrow>
             (case notify_telegram w a message telegram_config of
                Inl e \<Rightarrow> \<lparr>raised = Some e, trace = mails, store = d\<rparr>
              | Inr chats \<Rightarrow>
                  (let r = check_loop w stock_data email_config telegram_config rest
                             (deactivate_alert (update_ok w (alert_id a)) d (alert_id a))
                   in r\<lparr>trace := mails @ chats @ Deactivate (alert_id a) # trace r\<rparr>))))"

definition check_alerts :: "world \<Rightarrow> db \<Rightarrow> quote \<Rightarrow> pydict option \<Rightarrow> pydict option \<Rightarrow> run" where
  "check_alerts w d stock_data email_config telegram_config =
     check_loop w stock_data email_config telegram_config (get_active_alerts (select_ok w) d) d"

section \<open>The tracking loop\<close>

text \<open>
  What one pass of the \<^verbatim>\<open>while\<close> loop of \<^verbatim>\<open>track\<close> meets: whether
  \<^verbatim>\<open>stop_tracking\<close> has cleared \<^verbatim>\<open>tracking_active\<close> by the time of the loop test,
  whether the SELECT of \<^verbatim>\<open>get_watchlist\<close> runs, and for each symbol of the watchlist
  the provider's answer, the clock at the fetch, whether the INSERT of
  \<^verbatim>\<open>store_stock_data\<close> runs, and the world of \<^verbatim>\<open>check_alerts\<close>.
\<close>

record pass =
  stop_requested :: bool
  watchlist_ok :: bool
  provider :: "string \<Rightarrow> ticker"
  clock :: "string \<Rightarrow> datetime"
  insert_ok :: "string \<Rightarrow> bool"
  alert_world :: "string \<Rightarrow> world"

text \<open>Lines 491 to 495: the body of the \<^verbatim>\<open>for\<close> loop.\<close>

definition process_symbol :: "pass \<Rightarrow> pydict option \<Rightarrow> pydict option \<Rightarrow> string \<Rightarrow> db \<Rightarrow> run" where
  "process_symbol p email_config telegram_config s d =
     (case get_stock_data (provider p s) (clock p s) s of
        None \<Rightarrow> \<lparr>raised = None, trace = [Fetched s False], store = d\<rparr>
      | Some stock_data \<Rightarrow>
          (let r = check_alerts (alert_world p s) (store_stock_data (insert_ok p s) d stock_data)
                     stock_data email_config telegram_config
           in r\<lparr>trace := Fetched s True # Stored stock_data # Checked stock_data # trace r\<rparr>))"

fun symbols_loop :: "pass \<Rightarrow> pydict option \<Rightarrow> pydict option \<Rightarrow> string list \<Rightarrow> db \<Rightarrow> run" where
  "symbols_loop p email_config telegram_config [] d = \<lparr>raised = None, trace = [], store = d\<rparr>"
| "symbols_loop p email_config telegram_config (s # rest) d =
     (let r = process_symbol p email_config telegram_config s d in
      case raised r of
        Some e \<Rightarrow> r
      | None \<Rightarrow>
          (let r' = symbols_loop p email_config telegram_config rest (store r)
           in r'\<lparr>trace := trace r @ trace r'\<rparr>))"

text \<open>Lines 488 to 495: one pass over the watchlist as it is read at the start of the pass.\<close>

definition cycle :: "pass \<Rightarrow> pydict option \<Rightarrow> pydict option \<Rightarrow> db \<Rightarrow> run" where
  "cycle p email_config telegram_config d =
     symbols_loop p email_config telegram_config (get_watchlist (watchlist_ok p) d) d"

text \<open>
  How the thread of \<^verbatim>\<open>track\<close> stands after the passes it was given: it left the loop
  because \<^verbatim>\<open>tracking_active\<close> was false, it died of an exception, or it is still in the
  loop.
\<close>

datatype thread_state = Stopped | Died py_error | Running

text \<open>
  \<^verbatim>\<open>track\<close>. Nothing in it catches an exception of \<^verbatim>\<open>check_alerts\<close>, and
  \<^verbatim>\<open>time.sleep\<close> raises ValueError on a negative length. The list of passes is the
  fuel of the loop.
\<close>

fun track :: "int \<Rightarrow> pydict option \<Rightarrow> pydict option \<Rightarrow> pass list \<Rightarrow> db \<Rightarrow> thread_state \<times> event list \<times> db" where
  "track interval_minutes email_config telegram_config [] d = (Running, [], d)"
| "track interval_minutes email_config telegram_config (p # ps) d =
     (if stop_requested p then (Stopped, [], d)
      else
        (let r = cycle p email_config telegram_config d in
         case raised r of
           Some e \<Rightarrow> (Died e, trace r, store r)
         | None \<Rightarrow>
             if interval_minutes * 60 < 0 then (Died ValueError, trace r, store r)
             else
               (let (st, tr, d') = track interval_minutes email_config telegram_config ps (store r)
                in (st, trace r @ tr, d'))))"

section \<open>Commands on the database\<close>

text \<open>Every method of the class that writes to the database, with what it meets.\<close>

datatype command =
  AddToWatchlist bool datetime string
| RemoveFromWatchlist bool string
| StoreStockData bool quote
| CreateAlert bool datetime string string rat "string option" "string option"
| DeactivateAlert bool nat
| CheckAlerts world quote "pydict option" "pydict option"
| Track int "pydict option" "pydict option" "pass list"

fun perform :: "db \<Rightarrow> command \<Rightarrow> db" where
  "perform d (AddToWatchlist ok now s) = snd (add_to_watchlist ok now d s)"
| "perform d (RemoveFromWatchlist ok s) = snd (remove_from_watchlist ok d s)"
| "perform d (StoreStockData ok q) = store_stock_data ok d q"
| "perform d (CreateAlert ok now s atype thr em chat) = snd (create_alert ok now d s atype thr em chat)"
| "perform d (DeactivateAlert ok i) = deactivate_alert ok d i"
| "perform d (CheckAlerts w q email_config telegram_config) =
     store (check_alerts w d q email_config telegram_config)"
| "perform d (Track interval_minutes email_config telegram_config ps) =
     snd (snd (track interval_minutes email_config telegram_config ps d))"

definition perform_all :: "db \<Rightarrow> command list \<Rightarrow> db" where
  "perform_all d cs = foldl perform d cs"

section \<open>Notions the properties are stated with\<close>

text \<open>
  A configuration the call sites of \<^verbatim>\<open>check_alerts\<close> can use without an exception: the
  mail configuration has no key but the keyword parameters of \<^verbatim>\<open>send_email_alert\<close>,
  and the chat configuration, when it is not empty, has the key \<^verbatim>\<open>bot_token\<close>.
\<close>

definition email_config_ok :: "pydict option \<Rightarrow> bool" where
  "email_config_ok email_config =
     (case email_config of
        None \<Rightarrow> True
      | Some cfg \<Rightarrow> list_all (\<lambda>k. k \<in> set email_keywords) (map fst cfg))"

definition telegram_config_ok :: "pydict option \<Rightarrow> bool" where
  "telegram_config_ok telegram_config =
     (case telegram_config of
        None \<Rightarrow> True
      | Some cfg \<Rightarrow> cfg = [] \<or> map_of cfg ''bot_token'' \<noteq> None)"

text \<open>
  The attempts a fired rule is owed: a mail when the rule has an address and there is a
  mail configuration, a chat message when the rule has a chat id and there is a chat
  configuration, each with the answer of its own transport.
\<close>

definition mail_request :: "quote \<Rightarrow> alert \<Rightarrow> pydict \<Rightarrow> smtp_request" where
  "mail_request stock_data a cfg =
     \<lparr>smtp_server = dict_get_default cfg ''smtp_server'' (PStr ''smtp.gmail.com''),
      smtp_port = dict_get_default cfg ''smtp_port'' (PNum 587),
      sender_email = dict_get_default cfg ''sender_email'' (PStr []),
      sender_password = dict_get_default cfg ''sender_password'' (PStr []),
      rcpt = the (email a),
      subject = ''Stock Alert: '' @ symbol stock_data,
      body = alert_message stock_data a\<rparr>"

definition chat_request :: "quote \<Rightarrow> alert \<Rightarrow> pydict \<Rightarrow> telegram_request" where
  "chat_request stock_data a cfg =
     \<lparr>url = ''https://api.telegram.org/bot'' @ py_str (dict_get cfg ''bot_token'') @ ''/sendMessage'',
      chat_id = the (telegram_chat_id a),
      message_text = alert_message stock_data a\<rparr>"

definition mail_attempts :: "world \<Rightarrow> quote \<Rightarrow> alert \<Rightarrow> pydict option \<Rightarrow> event list" where
  "mail_attempts w stock_data a email_config =
     (if truthy_text (email a) \<and> truthy_dict email_config then
        [Email (mail_request stock_data a (the email_config))
           (smtp w (mail_request stock_data a (the email_config)))]
      else [])"

definition chat_attempts :: "world \<Rightarrow> quote \<Rightarrow> alert \<Rightarrow> pydict option \<Rightarrow> event list" where
  "chat_attempts w stock_data a telegram_config =
     (if truthy_text (telegram_chat_id a) \<and> truthy_dict telegram_config then
        [Telegram (chat_request stock_data a (the telegram_config))
           (http_post w (chat_request stock_data a (the telegram_config)) = Returned 200)]
      else [])"

text \<open>A rule that is in the table and inactive in every row that carries its id.\<close>

definition retired :: "nat \<Rightarrow> db \<Rightarrow> bool" where
  "retired i d =
     (i \<in> set (map alert_id (alerts d)) \<and>
      list_all (\<lambda>a. alert_id a \<noteq> i \<or> \<not> is_active a) (alerts d))"

section \<open>Concrete inputs\<close>

definition noon :: datetime where
  "noon = \<lparr>year = 2024, month = 3, day = 5, hour = 12, minute = 30, second = 7, microsecond = 0\<rparr>"

definition aapl_rule :: alert where
  "aapl_rule =
     \<lparr>alert_id = 1, alert_symbol = ''AAPL'', alert_type = ''above'', threshold = 200,
      email = Some ''user@example.com'', telegram_chat_id = Some ''123456789'',
      is_active = True, created_at = noon\<rparr>"

definition aapl_db :: db where
  "aapl_db = init_database\<lparr>alerts := [aapl_rule], alerts_seq := 1\<rparr>"

definition aapl_quote :: quote where
  "aapl_quote =
     \<lparr>symbol = ''AAPL'', price = 200, change = 3 / 2, change_percent = 3 / 4,
      volume = PNum 1000, market_cap = PNone, pe_ratio = PNone, timestamp = noon\<rparr>"

text \<open>A world where every transport fails and the database works.\<close>

definition failing_world :: world where
  "failing_world =
     \<lparr>select_ok = True, smtp = (\<lambda>_. False), http_post = (\<lambda>_. Raised), update_ok = (\<lambda>_. True)\<rparr>"

definition mail_config :: "pydict option" where
  "mail_config =
     Some [(''smtp_server'', PStr ''smtp.gmail.com''), (''smtp_port'', PNum 587),
           (''sender_email'', PStr ''me@example.com''), (''sender_password'', PStr ''secret'')]"

definition chat_config :: "pydict option" where
  "chat_config = Some [(''bot_token'', PStr ''TOKEN'')]"

text \<open>A mail configuration with a key that \<^verbatim>\<open>send_email_alert\<close> has no parameter for.\<close>

definition misnamed_mail_config :: "pydict option" where
  "misnamed_mail_config =
     Some [(''sender_email'', PStr ''me@example.com''), (''password'', PStr ''secret'')]"

text \<open>A chat configuration whose key is not the one \<^verbatim>\<open>check_alerts\<close> reads.\<close>

definition misnamed_chat_config :: "pydict option" where
  "misnamed_chat_config = Some [(''token'', PStr ''TOKEN'')]"

text \<open>
  A provider answer with a live price half a cent below 200, and one with nothing: no
  price field and an empty history.
\<close>

definition aapl_info :: pydict where
  "aapl_info =
     [(''currentPrice'', PNum (199996 / 1000)), (''previousClose'', PNum 198),
      (''volume'', PNum 1000)]"

definition aapl_ticker :: ticker where
  "aapl_ticker = \<lparr>ticker_info = Returned aapl_info, ticker_history = Returned []\<rparr>"

definition dead_ticker :: ticker where
  "dead_ticker = \<lparr>ticker_info = Returned [], ticker_history = Returned []\<rparr>"

text \<open>A pass in which only AAPL has a quote, and a watchlist that holds ZZZZ before AAPL.\<close>

definition tracking_pass :: pass where
  "tracking_pass =
     \<lparr>stop_requested = False, watchlist_ok = True,
      provider = (\<lambda>s. if s = ''AAPL'' then aapl_ticker else dead_ticker),
      clock = (\<lambda>_. noon), insert_ok = (\<lambda>_. True), alert_world = (\<lambda>_. failing_world)\<rparr>"

definition stop_pass :: pass where
  "stop_pass = tracking_pass\<lparr>stop_requested := True\<rparr>"


text \<open>Commands run after the rule of \<open>aapl_db\<close> has fired.\<close>

definition later_commands :: "command list" where
  "later_commands =
     [CreateAlert True noon ''aapl'' ''above'' 100 None None,
      AddToWatchlist True noon ''aapl'',
      CheckAlerts failing_world aapl_quote mail_config chat_config,
      DeactivateAlert True 1,
      Track 5 mail_config chat_config [tracking_pass, tracking_pass, stop_pass],
      RemoveFromWatchlist True ''AAPL'']"

text \<open>
  A value of the provider dictionary that the arithmetic of \<^verbatim>\<open>get_stock_data\<close> can
  use: the key is missing, or it holds a number.
\<close>

definition numeric_or_missing :: "pydict \<Rightarrow> string \<Rightarrow> bool" where
  "numeric_or_missing info k =
     (case map_of info k of None \<Rightarrow> True | Some (PNum x) \<Rightarrow> True | Some _ \<Rightarrow> False)"

text \<open>
  Provider answers: a live price of zero with a history, and a price of 1 after a
  close of 3.
\<close>

definition zero_price_info :: pydict where
  "zero_price_info = [(''currentPrice'', PNum 0), (''previousClose'', PNum 4)]"

definition zero_price_ticker :: ticker where
  "zero_price_ticker = \<lparr>ticker_info = Returned zero_price_info, ticker_history = Returned [3, 5]\<rparr>"



text \<open>The quote \<^verbatim>\<open>get_stock_data\<close> makes of \<open>aapl_ticker\<close>.\<close>

definition rounded_quote :: quote where
  "rounded_quote =
     \<lparr>symbol = ''AAPL'', price = 200, change = 2, change_percent = 101 / 100,
      volume = PNum 1000, market_cap = PNone, pe_ratio = PNone, timestamp = noon\<rparr>"

text \<open>Samples of two symbols, stored out of the order of their timestamps.\<close>

definition history_db :: db where
  "history_db =
     init_database
       \<lparr>stocks :=
          [\<lparr>stock_id = 1, stock_symbol = ''AAPL'', stock_price = 201, stock_change_percent = 1,
            stock_volume = PNum 10, stock_timestamp = noon\<lparr>hour := 14\<rparr>\<rparr>,
           \<lparr>stock_id = 2, stock_symbol = ''MSFT'', stock_price = 400, stock_change_percent = 0,
            stock_volume = PNum 20, stock_timestamp = noon\<lparr>hour := 13\<rparr>\<rparr>,
           \<lparr>stock_id = 3, stock_symbol = ''AAPL'', stock_price = 200, stock_change_percent = 1 / 2,
            stock_volume = PNone, stock_timestamp = noon\<rparr>,
           \<lparr>stock_id = 4, stock_symbol = ''AAPL'', stock_price = 199, stock_change_percent = 0,
            stock_volume = PNum 5, stock_timestamp = noon\<lparr>day := 1\<rparr>\<rparr>],
        stocks_seq := 4\<rparr>"

text \<open>The commands that add rows to the table of samples.\<close>

fun writes_samples :: "command \<Rightarrow> bool" where
  "writes_samples (StoreStockData ok q) = True"
| "writes_samples (Track m email_config telegram_config ps) = True"
| "writes_samples c = False"

text \<open>Commands that write no sample.\<close>

definition alert_commands :: "command list" where
  "alert_commands =
     [CreateAlert True noon ''msft'' ''below'' 390 None None,
      CheckAlerts failing_world aapl_quote mail_config chat_config,
      DeactivateAlert True 1,
      AddToWatchlist True noon ''msft'']"




section \<open>The loop of check_alerts\<close>

lemma notify_email_events:
  "notify_email w q a m ec = Inr evs \<Longrightarrow> Deactivate i \<notin> set evs"
  by (auto simp: notify_email_def send_email_alert_def Let_def
      split: option.splits if_splits prod.splits)

lemma notify_telegram_events:
  "notify_telegram w a m tc = Inr evs \<Longrightarrow> Deactivate i \<notin> set evs"
  by (auto simp: notify_telegram_def send_telegram_alert_def Let_def
      split: option.splits if_splits prod.splits sum.splits)

lemma check_loop_other_symbols:
  "check_loop w q ec tc as d =
   check_loop w q ec tc (filter (\<lambda>a. alert_symbol a = symbol q) as) d"
  by (induction as arbitrary: d) (auto simp: Let_def split: sum.splits)

lemma check_loop_deactivate_only_fired:
  "Deactivate i \<in> set (trace (check_loop w q ec tc as d)) \<Longrightarrow>
   \<exists>a \<in> set as. alert_id a = i \<and> alert_symbol a = symbol q \<and> triggered q a"
proof (induction as arbitrary: d)
  case Nil
  then show ?case by simp
next
  case (Cons a as)
  then show ?case
    by (auto simp: Let_def split: sum.splits if_splits
        dest: notify_email_events notify_telegram_events)
qed

lemma check_loop_fired_deactivate:
  "raised (check_loop w q ec tc as d) = None \<Longrightarrow> a \<in> set as \<Longrightarrow>
   alert_symbol a = symbol q \<Longrightarrow> triggered q a \<Longrightarrow>
   Deactivate (alert_id a) \<in> set (trace (check_loop w q ec tc as d))"
proof (induction as arbitrary: d)
  case Nil
  then show ?case by simp
next
  case (Cons b as)
  then show ?case
    by (auto simp: Let_def split: sum.splits if_splits)
qed

lemma notify_email_ok:
  "email_config_ok ec \<Longrightarrow> notify_email w q a (alert_message q a) ec = Inr (mail_attempts w q a ec)"
  by (cases "email a"; cases ec)
     (auto simp: email_config_ok_def notify_email_def mail_attempts_def mail_request_def
        send_email_alert_def Let_def)

lemma notify_telegram_ok:
  "telegram_config_ok tc \<Longrightarrow>
   notify_telegram w a (alert_message q a) tc = Inr (chat_attempts w q a tc)"
  by (cases "telegram_chat_id a"; cases tc)
     (auto simp: telegram_config_ok_def notify_telegram_def chat_attempts_def chat_request_def
        send_telegram_alert_def dict_index_def dict_get_def Let_def split: outcome.splits)

lemma check_loop_no_raise:
  "email_config_ok ec \<Longrightarrow> telegram_config_ok tc \<Longrightarrow> raised (check_loop w q ec tc as d) = None"
  by (induction as arbitrary: d) (simp_all add: Let_def notify_email_ok notify_telegram_ok)

lemma alerts_deactivate_ids:
  "map alert_id (alerts (deactivate_alert ok d j)) = map alert_id (alerts d)"
  by (simp add: deactivate_alert_def comp_def)

lemma inactive_deactivate:
  "list_all (\<lambda>a. alert_id a \<noteq> i \<or> \<not> is_active a) (alerts d) \<Longrightarrow>
   list_all (\<lambda>a. alert_id a \<noteq> i \<or> \<not> is_active a) (alerts (deactivate_alert ok d j))"
  by (auto simp: deactivate_alert_def list_all_iff)

lemma retired_deactivate: "retired i d \<Longrightarrow> retired i (deactivate_alert ok d j)"
  unfolding retired_def using inactive_deactivate [of i d ok j]
  by (simp add: alerts_deactivate_ids)

lemma deactivate_retires:
  "i \<in> set (map alert_id (alerts d)) \<Longrightarrow> retired i (deactivate_alert True d i)"
  unfolding retired_def by (auto simp: deactivate_alert_def list_all_iff)

lemma retired_not_active:
  "retired i d \<Longrightarrow> i \<notin> set (map alert_id (get_active_alerts ok d))"
  by (auto simp: retired_def get_active_alerts_def list_all_iff)

lemma retired_check_loop: "retired i d \<Longrightarrow> retired i (store (check_loop w q ec tc as d))"
  by (induction as arbitrary: d) (auto simp: Let_def retired_deactivate split: sum.splits)

lemma check_loop_fired_order:
  "email_config_ok ec \<Longrightarrow> telegram_config_ok tc \<Longrightarrow> a \<in> set as \<Longrightarrow>
   alert_symbol a = symbol q \<Longrightarrow> triggered q a \<Longrightarrow>
   \<exists>pre post. trace (check_loop w q ec tc as d) =
     pre @ mail_attempts w q a ec @ chat_attempts w q a tc @ Deactivate (alert_id a) # post"
proof (induction as arbitrary: d)
  case Nil
  then show ?case by simp
next
  case (Cons b as)
  show ?case
  proof (cases "b = a")
    case True
    with Cons.prems show ?thesis
      by (auto simp: Let_def notify_email_ok notify_telegram_ok intro: exI [of _ "[]"])
  next
    case False
    with Cons.prems have "a \<in> set as" by simp
    from Cons.IH [OF Cons.prems(1,2) this Cons.prems(4,5)]
    have ih: "\<And>d. \<exists>pre post. trace (check_loop w q ec tc as d) =
      pre @ mail_attempts w q a ec @ chat_attempts w q a tc @ Deactivate (alert_id a) # post" .
    show ?thesis
    proof (cases "alert_symbol b = symbol q \<and> triggered q b")
      case False
      then show ?thesis using ih [of d] by auto
    next
      case True
      obtain pre post where
        "trace (check_loop w q ec tc as (deactivate_alert (update_ok w (alert_id b)) d (alert_id b))) =
         pre @ mail_attempts w q a ec @ chat_attempts w q a tc @ Deactivate (alert_id a) # post"
        using ih by blast
      then have "trace (check_loop w q ec tc (b # as) d) =
        (mail_attempts w q b ec @ chat_attempts w q b tc @ Deactivate (alert_id b) # pre)
          @ mail_attempts w q a ec @ chat_attempts w q a tc @ Deactivate (alert_id a) # post"
        using True Cons.prems(1,2) by (simp add: Let_def notify_email_ok notify_telegram_ok)
      then show ?thesis by blast
    qed
  qed
qed

lemma check_loop_fired_retired:
  "email_config_ok ec \<Longrightarrow> telegram_config_ok tc \<Longrightarrow> a \<in> set as \<Longrightarrow>
   alert_id a \<in> set (map alert_id (alerts d)) \<Longrightarrow>
   alert_symbol a = symbol q \<Longrightarrow> triggered q a \<Longrightarrow> update_ok w (alert_id a) \<Longrightarrow>
   retired (alert_id a) (store (check_loop w q ec tc as d))"
proof (induction as arbitrary: d)
  case Nil
  then show ?case by simp
next
  case (Cons b as)
  show ?case
  proof (cases "b = a")
    case True
    with Cons.prems show ?thesis
      by (simp add: Let_def notify_email_ok notify_telegram_ok retired_check_loop deactivate_retires)
  next
    case False
    with Cons.prems have in_as: "a \<in> set as" by simp
    have ih: "\<And>d. alert_id a \<in> set (map alert_id (alerts d)) \<Longrightarrow>
      retired (alert_id a) (store (check_loop w q ec tc as d))"
      using Cons.IH [OF Cons.prems(1,2) in_as _ Cons.prems(5,6,7)] by blast
    show ?thesis
    proof (cases "alert_symbol b = symbol q \<and> triggered q b")
      case False
      then show ?thesis using ih [OF Cons.prems(4)] by auto
    next
      case True
      have "alert_id a \<in> set (map alert_id (alerts (deactivate_alert (update_ok w (alert_id b)) d (alert_id b))))"
        using Cons.prems(4) by (simp only: alerts_deactivate_ids)
      from ih [OF this] show ?thesis
        using True Cons.prems(1,2) by (simp add: Let_def notify_email_ok notify_telegram_ok)
    qed
  qed
qed

lemma active_alert_in_table:
  "a \<in> set (get_active_alerts ok d) \<Longrightarrow> a \<in> set (alerts d)"
  by (auto simp: get_active_alerts_def split: if_splits)

section \<open>Retired rules\<close>

lemma fold_max_bounds:
  "s \<le> fold max xs s \<and> (\<forall>x \<in> set xs. x \<le> fold max xs (s::nat))"
proof (induction xs arbitrary: s)
  case Nil
  then show ?case by simp
next
  case (Cons y ys)
  have "max y s \<le> fold max ys (max y s)" using Cons.IH [of "max y s"] by blast
  then show ?case using Cons.IH [of "max y s"] by auto
qed

lemma next_rowid_fresh: "next_rowid seq ids \<notin> set ids"
  using fold_max_bounds [of seq ids] by (auto simp: next_rowid_def)

lemma retired_create_alert:
  "retired i d \<Longrightarrow> retired i (snd (create_alert ok now d s atype thr em chat))"
  using next_rowid_fresh [of "alerts_seq d" "map alert_id (alerts d)"]
  by (auto simp: retired_def create_alert_def Let_def list_all_iff)

lemma retired_store_stock_data: "retired i d \<Longrightarrow> retired i (store_stock_data ok d q)"
  by (simp add: retired_def store_stock_data_def Let_def)

lemma retired_add_to_watchlist: "retired i d \<Longrightarrow> retired i (snd (add_to_watchlist ok now d s))"
  by (simp add: retired_def add_to_watchlist_def Let_def)

lemma retired_remove_from_watchlist:
  "retired i d \<Longrightarrow> retired i (snd (remove_from_watchlist ok d s))"
  by (simp add: retired_def remove_from_watchlist_def)

lemma retired_check_alerts: "retired i d \<Longrightarrow> retired i (store (check_alerts w d q ec tc))"
  unfolding check_alerts_def by (rule retired_check_loop)

lemma retired_process_symbol: "retired i d \<Longrightarrow> retired i (store (process_symbol p ec tc s d))"
  by (auto simp: process_symbol_def Let_def retired_check_alerts retired_store_stock_data
      split: option.splits)

lemma retired_symbols_loop: "retired i d \<Longrightarrow> retired i (store (symbols_loop p ec tc ss d))"
  by (induction ss arbitrary: d)
     (auto simp: Let_def retired_process_symbol split: option.splits)

lemma retired_cycle: "retired i d \<Longrightarrow> retired i (store (cycle p ec tc d))"
  unfolding cycle_def by (rule retired_symbols_loop)

lemma retired_track: "retired i d \<Longrightarrow> retired i (snd (snd (track m ec tc ps d)))"
proof (induction ps arbitrary: d)
  case Nil
  then show ?case by simp
next
  case (Cons p ps)
  have after: "retired i (store (cycle p ec tc d))"
    using Cons.prems by (rule retired_cycle)
  from Cons.IH [OF after] after Cons.prems show ?case
    by (auto simp: Let_def split: option.splits prod.splits)
qed

lemma retired_perform: "retired i d \<Longrightarrow> retired i (perform d c)"
  by (cases c)
     (simp_all add: retired_add_to_watchlist retired_remove_from_watchlist
        retired_store_stock_data retired_create_alert retired_deactivate retired_check_alerts
        retired_track)

lemma retired_perform_all: "retired i d \<Longrightarrow> retired i (perform_all d cs)"
  unfolding perform_all_def by (induction cs arbitrary: d) (simp_all add: retired_perform)

lemma check_loop_deactivated_retired:
  "Deactivate i \<in> set (trace (check_loop w q ec tc as d)) \<Longrightarrow> update_ok w i \<Longrightarrow>
   set (map alert_id as) \<subseteq> set (map alert_id (alerts d)) \<Longrightarrow>
   retired i (store (check_loop w q ec tc as d))"
proof (induction as arbitrary: d)
  case Nil
  then show ?case by simp
next
  case (Cons a as)
  have sub: "set (map alert_id as) \<subseteq> set (map alert_id (alerts d'))"
    if "map alert_id (alerts d') = map alert_id (alerts d)" for d' :: db
    using Cons.prems(3) that by auto
  show ?case
  proof (cases "alert_symbol a = symbol q \<and> triggered q a")
    case False
    then have same: "check_loop w q ec tc (a # as) d = check_loop w q ec tc as d"
      by auto
    have "Deactivate i \<in> set (trace (check_loop w q ec tc as d))"
      using Cons.prems(1) unfolding same .
    from Cons.IH [OF this Cons.prems(2) sub [OF refl]]
    show ?thesis unfolding same .
  next
    case True
    show ?thesis
    proof (cases "notify_email w q a (alert_message q a) ec")
      case (Inl e)
      then show ?thesis using True Cons.prems(1) by (simp add: Let_def)
    next
      case mails: (Inr ms)
      show ?thesis
      proof (cases "notify_telegram w a (alert_message q a) tc")
        case (Inl e)
        then show ?thesis
          using True mails Cons.prems(1) notify_email_events [OF mails, of i]
          by (simp add: Let_def)
      next
        case chats: (Inr cs)
        let ?d = "deactivate_alert (update_ok w (alert_id a)) d (alert_id a)"
        have step: "check_loop w q ec tc (a # as) d =
          (check_loop w q ec tc as ?d)\<lparr>trace := ms @ cs @ Deactivate (alert_id a) # trace (check_loop w q ec tc as ?d)\<rparr>"
          using True mails chats by (simp add: Let_def)
        show ?thesis
        proof (cases "alert_id a = i")
          case True
          have "i \<in> set (map alert_id (alerts d))" using Cons.prems(3) True by auto
          then have "retired i ?d" using True Cons.prems(2) by (simp add: deactivate_retires)
          then show ?thesis unfolding step by (simp add: retired_check_loop)
        next
          case False
          then have "Deactivate i \<in> set (trace (check_loop w q ec tc as ?d))"
            using Cons.prems(1) notify_email_events [OF mails, of i]
              notify_telegram_events [OF chats, of i]
            unfolding step by auto
          from Cons.IH [OF this Cons.prems(2) sub [OF alerts_deactivate_ids]]
          show ?thesis unfolding step by simp
        qed
      qed
    qed
  qed
qed

lemma check_alerts_deactivated_retired:
  "Deactivate i \<in> set (trace (check_alerts w d q ec tc)) \<Longrightarrow> update_ok w i \<Longrightarrow>
   retired i (store (check_alerts w d q ec tc))"
  unfolding check_alerts_def
  by (rule check_loop_deactivated_retired) (auto simp: get_active_alerts_def)

lemma deactivate_twice:
  "deactivate_alert ok' (deactivate_alert True d i) i = deactivate_alert True d i"
  by (cases ok') (simp_all add: deactivate_alert_def comp_def)

lemma deactivate_same:
  "deactivate_alert ok (deactivate_alert ok d i) i = deactivate_alert ok d i"
  by (cases ok) (simp_all add: deactivate_alert_def comp_def)

lemma inactive_map:
  "list_all (\<lambda>a. alert_id a \<noteq> i \<or> \<not> is_active a)
     (map (\<lambda>a. if alert_id a = i then a\<lparr>is_active := False\<rparr> else a) xs)"
  by (induction xs) simp_all

lemma deactivate_inactive:
  "list_all (\<lambda>a. alert_id a \<noteq> i \<or> \<not> is_active a) (alerts (deactivate_alert True d i))"
  using inactive_map [of i "alerts d"] by (simp add: deactivate_alert_def)

section \<open>The passes of the tracking loop\<close>










section \<open>Fetched quotes\<close>





lemma get_stock_data_Some:
  "get_stock_data t now s = Some q \<Longrightarrow>
   \<exists>info cp pc. ticker_info t = Returned info \<and> resolve_price t info = Some (PNum cp) \<and>
     dict_get_default info ''previousClose'' (PNum cp) = PNum pc \<and>
     q = \<lparr>symbol = upper s, price = py_round2 cp, change = py_round2 (cp - pc),
          change_percent = py_round2 (percent_change cp pc),
          volume = dict_get_default info ''volume'' (PNum 0),
          market_cap = dict_get info ''marketCap'', pe_ratio = dict_get info ''trailingPE'',
          timestamp = now\<rparr>"
  by (auto simp: get_stock_data_def split: outcome.splits option.splits pyval.splits)

lemma get_stock_data_defined:
  "ticker_info t = Returned info \<Longrightarrow> resolve_price t info = Some (PNum cp) \<Longrightarrow>
   numeric_or_missing info ''previousClose'' \<Longrightarrow> get_stock_data t now s \<noteq> None"
  by (auto simp: get_stock_data_def numeric_or_missing_def dict_get_default_def
      split: option.splits pyval.splits)

lemma resolve_live:
  "truthy (py_or (dict_get info ''currentPrice'') (dict_get info ''regularMarketPrice'')) \<Longrightarrow>
   resolve_price t info =
     Some (py_or (dict_get info ''currentPrice'') (dict_get info ''regularMarketPrice''))"
  by (simp add: resolve_price_def Let_def)

lemma resolve_history:
  "\<not> truthy (py_or (dict_get info ''currentPrice'') (dict_get info ''regularMarketPrice'')) \<Longrightarrow>
   resolve_price t info =
     (case ticker_history t of
        Raised \<Rightarrow> None
      | Returned hist \<Rightarrow> if hist \<noteq> [] then Some (PNum (last hist)) else None)"
  by (simp add: resolve_price_def Let_def)

lemma check_loop_stocks: "stocks (store (check_loop w q ec tc as d)) = stocks d"
  by (induction as arbitrary: d) (auto simp: Let_def deactivate_alert_def split: sum.splits)

lemma check_alerts_stocks: "stocks (store (check_alerts w d q ec tc)) = stocks d"
  unfolding check_alerts_def by (rule check_loop_stocks)

section \<open>Reading the samples\<close>

lemma perform_keeps_stocks: "\<not> writes_samples c \<Longrightarrow> stocks (perform d c) = stocks d"
  by (cases c)
     (simp_all add: add_to_watchlist_def remove_from_watchlist_def create_alert_def
        deactivate_alert_def check_alerts_stocks Let_def)

lemma perform_all_keeps_stocks:
  "list_all (\<lambda>c. \<not> writes_samples c) cs \<Longrightarrow> stocks (perform_all d cs) = stocks d"
  unfolding perform_all_def
  by (induction cs arbitrary: d) (simp_all add: perform_keeps_stocks)

lemma history_depends_on_stocks:
  "stocks d' = stocks d \<Longrightarrow> get_historical_data ok d' s c = get_historical_data ok d s c"
  by (simp add: get_historical_data_def)

section \<open>The text of a notification\<close>



















section \<open>Claims\<close>

text \<open>
  C1. For a quote and a rule, \<^verbatim>\<open>check_alerts\<close> sets \<^verbatim>\<open>triggered\<close> exactly when the
  inclusive comparison of the rule's kind holds: \<open>above\<close> (the specification's
  price_above) when the price is at least the threshold, \<open>below\<close> (price_below) when it
  is at most the threshold, \<open>change_above\<close> and \<open>change_below\<close> likewise on the percent
  change; no other kind triggers, and a price exactly at the threshold triggers. A rule
  is deactivated by a quote only if it is an active rule with the quote's symbol whose
  comparison holds, and the call runs as if the rules with another symbol were not in
  the table, so a rule with another symbol is never triggered by the quote; and when
  the call raises nothing, every active rule with the quote's symbol whose comparison
  holds is deactivated.
\<close>

theorem alert_triggers_iff_inclusive_comparison:
  "(alert_type a = ''above'' \<longrightarrow> (triggered q a \<longleftrightarrow> price q \<ge> threshold a)) \<and>
   (alert_type a = ''below'' \<longrightarrow> (triggered q a \<longleftrightarrow> price q \<le> threshold a)) \<and>
   (alert_type a = ''change_above'' \<longrightarrow> (triggered q a \<longleftrightarrow> change_percent q \<ge> threshold a)) \<and>
   (alert_type a = ''change_below'' \<longrightarrow> (triggered q a \<longleftrightarrow> change_percent q \<le> threshold a)) \<and>
   (alert_type a \<notin> set [''above'', ''below'', ''change_above'', ''change_below''] \<longrightarrow>
      \<not> triggered q a) \<and>
   (alert_type a = ''above'' \<and> price q = threshold a \<longrightarrow> triggered q a) \<and>
   check_alerts w d q ec tc =
     check_loop w q ec tc
       (filter (\<lambda>b. alert_symbol b = symbol q) (get_active_alerts (select_ok w) d)) d \<and>
   (Deactivate i \<in> set (trace (check_alerts w d q ec tc)) \<longrightarrow>
      (\<exists>b \<in> set (get_active_alerts (select_ok w) d).
         alert_id b = i \<and> alert_symbol b = symbol q \<and> triggered q b)) \<and>
   (raised (check_alerts w d q ec tc) = None \<and> a \<in> set (get_active_alerts (select_ok w) d) \<and>
      alert_symbol a = symbol q \<and> triggered q a \<longrightarrow>
      Deactivate (alert_id a) \<in> set (trace (check_alerts w d q ec tc)))"
proof -
  have kinds: "(alert_type a = ''above'' \<longrightarrow> (triggered q a \<longleftrightarrow> price q \<ge> threshold a)) \<and>
   (alert_type a = ''below'' \<longrightarrow> (triggered q a \<longleftrightarrow> price q \<le> threshold a)) \<and>
   (alert_type a = ''change_above'' \<longrightarrow> (triggered q a \<longleftrightarrow> change_percent q \<ge> threshold a)) \<and>
   (alert_type a = ''change_below'' \<longrightarrow> (triggered q a \<longleftrightarrow> change_percent q \<le> threshold a)) \<and>
   (alert_type a \<notin> set [''above'', ''below'', ''change_above'', ''change_below''] \<longrightarrow>
      \<not> triggered q a) \<and>
   (alert_type a = ''above'' \<and> price q = threshold a \<longrightarrow> triggered q a)"
    by (auto simp: triggered_def Let_def)
  have skipped: "check_alerts w d q ec tc =
     check_loop w q ec tc
       (filter (\<lambda>b. alert_symbol b = symbol q) (get_active_alerts (select_ok w) d)) d"
    unfolding check_alerts_def by (rule check_loop_other_symbols)
  have only: "Deactivate i \<in> set (trace (check_alerts w d q ec tc)) \<longrightarrow>
      (\<exists>b \<in> set (get_active_alerts (select_ok w) d).
         alert_id b = i \<and> alert_symbol b = symbol q \<and> triggered q b)"
    unfolding check_alerts_def using check_loop_deactivate_only_fired by blast
  have every: "raised (check_alerts w d q ec tc) = None \<and>
      a \<in> set (get_active_alerts (select_ok w) d) \<and>
      alert_symbol a = symbol q \<and> triggered q a \<longrightarrow>
      Deactivate (alert_id a) \<in> set (trace (check_alerts w d q ec tc))"
    unfolding check_alerts_def using check_loop_fired_deactivate by blast
  from kinds skipped only every show ?thesis by (intro conjI) blast+
qed

theorem alert_triggers_iff_inclusive_comparison_witness:
  "alert_type aapl_rule = ''above'' \<and> price aapl_quote = threshold aapl_rule \<and>
   triggered aapl_quote aapl_rule \<and>
   Deactivate (alert_id aapl_rule) \<in> set (trace (check_alerts failing_world aapl_db aapl_quote None None))"
proof -
  have kind: "alert_type aapl_rule = ''above'' \<and> price aapl_quote = threshold aapl_rule"
    by code_simp
  have call: "raised (check_alerts failing_world aapl_db aapl_quote None None) = None \<and>
      aapl_rule \<in> set (get_active_alerts (select_ok failing_world) aapl_db) \<and>
      alert_symbol aapl_rule = symbol aapl_quote"
    by code_simp
  from alert_triggers_iff_inclusive_comparison
    [where a = aapl_rule and q = aapl_quote and w = failing_world and d = aapl_db
       and ec = None and tc = None]
    kind call
  show ?thesis by blast
qed

text \<open>
  C2, as amended. Let the mail configuration have no key but the keyword parameters of
  \<^verbatim>\<open>send_email_alert\<close> and the chat configuration be empty or have \<^verbatim>\<open>bot_token\<close>. Then
  \<^verbatim>\<open>check_alerts\<close> raises nothing, and for every active rule with the quote's symbol
  that triggers, its trace holds, next to each other and in this order, the mail attempt
  (when the rule has an address and mail is configured), the chat attempt (when the rule
  has a chat id and chat is configured) and the call of \<^verbatim>\<open>deactivate_alert\<close>; each
  attempt carries the answer of its own transport and is there whatever the other
  transport answered. When the UPDATE of that call goes through, the rule is inactive
  in the resulting database and \<^verbatim>\<open>get_active_alerts\<close> no longer returns it.
\<close>

theorem fired_rule_notified_then_deactivated:
  assumes "email_config_ok ec" and "telegram_config_ok tc"
    and "a \<in> set (get_active_alerts (select_ok w) d)"
    and "alert_symbol a = symbol q" and "triggered q a"
  shows "raised (check_alerts w d q ec tc) = None \<and>
    (\<exists>pre post. trace (check_alerts w d q ec tc) =
       pre @ mail_attempts w q a ec @ chat_attempts w q a tc @ Deactivate (alert_id a) # post) \<and>
    (update_ok w (alert_id a) \<longrightarrow>
       retired (alert_id a) (store (check_alerts w d q ec tc)) \<and>
       alert_id a \<notin> set (map alert_id (get_active_alerts ok (store (check_alerts w d q ec tc)))))"
proof -
  have "a \<in> set (alerts d)"
    using assms(3) by (rule active_alert_in_table)
  then have in_table: "alert_id a \<in> set (map alert_id (alerts d))" by simp
  have no_raise: "raised (check_alerts w d q ec tc) = None"
    unfolding check_alerts_def using assms(1,2) by (rule check_loop_no_raise)
  have order: "\<exists>pre post. trace (check_alerts w d q ec tc) =
       pre @ mail_attempts w q a ec @ chat_attempts w q a tc @ Deactivate (alert_id a) # post"
    unfolding check_alerts_def using assms by (rule check_loop_fired_order)
  have "retired (alert_id a) (store (check_alerts w d q ec tc))" if "update_ok w (alert_id a)"
    unfolding check_alerts_def
    using assms(1,2,3) in_table assms(4,5) that by (rule check_loop_fired_retired)
  with no_raise order show ?thesis
    using retired_not_active by blast
qed

theorem fired_rule_notified_then_deactivated_witness:
  "email_config_ok mail_config \<and> telegram_config_ok chat_config \<and>
   aapl_rule \<in> set (get_active_alerts (select_ok failing_world) aapl_db) \<and>
   alert_symbol aapl_rule = symbol aapl_quote \<and> triggered aapl_quote aapl_rule \<and>
   update_ok failing_world (alert_id aapl_rule) \<and>
   length (mail_attempts failing_world aapl_quote aapl_rule mail_config) = 1 \<and>
   length (chat_attempts failing_world aapl_quote aapl_rule chat_config) = 1 \<and>
   raised (check_alerts failing_world aapl_db aapl_quote mail_config chat_config) = None \<and>
   retired (alert_id aapl_rule)
     (store (check_alerts failing_world aapl_db aapl_quote mail_config chat_config))"
proof -
  have hyps: "email_config_ok mail_config \<and> telegram_config_ok chat_config \<and>
      aapl_rule \<in> set (get_active_alerts (select_ok failing_world) aapl_db) \<and>
      alert_symbol aapl_rule = symbol aapl_quote \<and> triggered aapl_quote aapl_rule \<and>
      update_ok failing_world (alert_id aapl_rule)"
    by code_simp
  have attempts: "length (mail_attempts failing_world aapl_quote aapl_rule mail_config) = 1 \<and>
      length (chat_attempts failing_world aapl_quote aapl_rule chat_config) = 1"
    by code_simp
  from hyps attempts
    fired_rule_notified_then_deactivated
      [of mail_config chat_config aapl_rule failing_world aapl_db aapl_quote]
  show ?thesis by blast
qed

text \<open>
  C2 as stated fails: with a chat configuration that lacks \<^verbatim>\<open>bot_token\<close>, the rule
  triggers, the mail is attempted, the lookup of the token raises KeyError, and
  \<^verbatim>\<open>deactivate_alert\<close> is never called: the rule stays active. With a mail
  configuration that has a key \<^verbatim>\<open>send_email_alert\<close> does not take, the call raises
  TypeError: neither transport is attempted and nothing is deactivated.
\<close>

theorem fired_rule_not_deactivated_counterexample:
  "triggered aapl_quote aapl_rule \<and>
   raised (check_alerts failing_world aapl_db aapl_quote mail_config misnamed_chat_config) = Some KeyError \<and>
   Deactivate (alert_id aapl_rule) \<notin>
     set (trace (check_alerts failing_world aapl_db aapl_quote mail_config misnamed_chat_config)) \<and>
   aapl_rule \<in> set (get_active_alerts True
     (store (check_alerts failing_world aapl_db aapl_quote mail_config misnamed_chat_config))) \<and>
   check_alerts failing_world aapl_db aapl_quote misnamed_mail_config chat_config =
     \<lparr>raised = Some TypeError, trace = [], store = aapl_db\<rparr>"
  by code_simp

text \<open>
  C3. When \<^verbatim>\<open>check_alerts\<close> has called \<^verbatim>\<open>deactivate_alert\<close> for a rule and the UPDATE
  went through, the rule is retired: it is in the table and inactive. A retired rule
  stays retired under every sequence of the methods that write to the database
  (\<^verbatim>\<open>add_to_watchlist\<close>, \<^verbatim>\<open>remove_from_watchlist\<close>, \<^verbatim>\<open>store_stock_data\<close>,
  \<^verbatim>\<open>create_alert\<close>, \<^verbatim>\<open>deactivate_alert\<close>, \<^verbatim>\<open>check_alerts\<close>, the tracking loop), and
  \<^verbatim>\<open>get_active_alerts\<close> never returns its id again.
\<close>

theorem retired_rule_never_active_again:
  "(Deactivate i \<in> set (trace (check_alerts w d q ec tc)) \<and> update_ok w i \<longrightarrow>
      retired i (store (check_alerts w d q ec tc))) \<and>
   (retired i d \<longrightarrow>
      retired i (perform_all d cs) \<and>
      i \<notin> set (map alert_id (get_active_alerts ok (perform_all d cs))))"
  using check_alerts_deactivated_retired [of i w d q ec tc] retired_perform_all [of i d cs]
    retired_not_active [of i "perform_all d cs" ok]
  by blast

theorem retired_rule_never_active_again_witness:
  "Deactivate 1 \<in> set (trace (check_alerts failing_world aapl_db aapl_quote None None)) \<and>
   update_ok failing_world 1 \<and>
   retired 1 (store (check_alerts failing_world aapl_db aapl_quote None None)) \<and>
   retired 1
     (perform_all (store (check_alerts failing_world aapl_db aapl_quote None None)) later_commands) \<and>
   1 \<notin> set (map alert_id (get_active_alerts True
     (perform_all (store (check_alerts failing_world aapl_db aapl_quote None None)) later_commands)))"
proof -
  have fired: "Deactivate 1 \<in> set (trace (check_alerts failing_world aapl_db aapl_quote None None)) \<and>
      update_ok failing_world 1"
    by code_simp
  from fired retired_rule_never_active_again
    [where i = 1 and w = failing_world and d = aapl_db and q = aapl_quote and ec = None and tc = None]
  have gone: "retired 1 (store (check_alerts failing_world aapl_db aapl_quote None None))"
    by blast
  from gone retired_rule_never_active_again
    [where i = 1 and d = "store (check_alerts failing_world aapl_db aapl_quote None None)"
       and cs = later_commands and ok = True]
    fired
  show ?thesis by blast
qed

text \<open>
  C7. \<^verbatim>\<open>deactivate_alert\<close> is idempotent: a second call on the same id leaves the
  database as the first call left it, whether or not the second UPDATE goes through;
  after a call whose UPDATE went through, every row with the id is inactive. The
  method has no error result: it catches every exception.
\<close>

theorem deactivate_alert_idempotent:
  "deactivate_alert ok (deactivate_alert ok d i) i = deactivate_alert ok d i \<and>
   deactivate_alert ok' (deactivate_alert True d i) i = deactivate_alert True d i \<and>
   list_all (\<lambda>a. alert_id a \<noteq> i \<or> \<not> is_active a) (alerts (deactivate_alert True d i))"
  using deactivate_same [of ok d i] deactivate_twice [of ok' d i] deactivate_inactive [of i d]
  by blast

theorem deactivate_alert_idempotent_witness:
  "is_active aapl_rule \<and> alert_id aapl_rule = 1 \<and>
   deactivate_alert True (deactivate_alert True aapl_db 1) 1 = deactivate_alert True aapl_db 1 \<and>
   deactivate_alert False (deactivate_alert True aapl_db 1) 1 = deactivate_alert True aapl_db 1 \<and>
   map is_active (alerts (deactivate_alert True aapl_db 1)) = [False]"
proof -
  have "is_active aapl_rule \<and> alert_id aapl_rule = 1 \<and>
      map is_active (alerts (deactivate_alert True aapl_db 1)) = [False]"
    by code_simp
  with deactivate_alert_idempotent [of True aapl_db 1 False]
    deactivate_alert_idempotent [of True aapl_db 1 True]
  show ?thesis by blast
qed




text \<open>
  C5, as amended. \<^verbatim>\<open>get_stock_data\<close> never raises: an exception of the provider gives
  \<open>None\<close>. The live price is \<^verbatim>\<open>currentPrice\<close> or, when that is missing, \<open>None\<close> or
  zero, \<^verbatim>\<open>regularMarketPrice\<close>. When the live price is a number other than zero, a
  returned quote carries it (rounded), and a quote is returned whenever the previous
  close is missing or a number. When the live price is missing, \<open>None\<close> or zero, a
  returned quote carries the last close of the one-day history (rounded), and a quote
  is returned whenever that history is not empty and the previous close is missing or
  a number; when the history is empty or its request raises, the result is \<open>None\<close>.
\<close>

theorem price_fallback_chain:
  "(ticker_info t = Raised \<longrightarrow> get_stock_data t now s = None) \<and>
   (ticker_info t = Returned info \<and>
    live = py_or (dict_get info ''currentPrice'') (dict_get info ''regularMarketPrice'') \<longrightarrow>
      (truthy live \<and> get_stock_data t now s = Some q \<longrightarrow>
         (\<exists>v. live = PNum v \<and> price q = py_round2 v)) \<and>
      (truthy live \<and> live = PNum v \<and> numeric_or_missing info ''previousClose'' \<longrightarrow>
         get_stock_data t now s \<noteq> None) \<and>
      (\<not> truthy live \<and> get_stock_data t now s = Some q \<longrightarrow>
         (\<exists>hist. ticker_history t = Returned hist \<and> hist \<noteq> [] \<and>
            price q = py_round2 (last hist))) \<and>
      (\<not> truthy live \<and> ticker_history t = Returned hist \<and> hist \<noteq> [] \<and>
         numeric_or_missing info ''previousClose'' \<longrightarrow>
         get_stock_data t now s \<noteq> None) \<and>
      (\<not> truthy live \<and> (ticker_history t = Raised \<or> ticker_history t = Returned []) \<longrightarrow>
         get_stock_data t now s = None))"
proof -
  have raised: "get_stock_data t now s = None" if "ticker_info t = Raised"
    using that by (simp add: get_stock_data_def)
  {
    assume info: "ticker_info t = Returned info"
      and live: "live = py_or (dict_get info ''currentPrice'') (dict_get info ''regularMarketPrice'')"
    have a: "\<exists>v. live = PNum v \<and> price q = py_round2 v"
      if "truthy live" "get_stock_data t now s = Some q"
      using get_stock_data_Some [OF that(2)] info resolve_live [of info t] that(1) live by auto
    have b: "get_stock_data t now s \<noteq> None"
      if "truthy live" "live = PNum v" "numeric_or_missing info ''previousClose''"
      using get_stock_data_defined [OF info _ that(3), of v] resolve_live [of info t] that(1,2) live
      by simp
    have c: "\<exists>hist. ticker_history t = Returned hist \<and> hist \<noteq> [] \<and> price q = py_round2 (last hist)"
      if "\<not> truthy live" "get_stock_data t now s = Some q"
      using get_stock_data_Some [OF that(2)] info resolve_history [of info t] that(1) live
      by (auto split: outcome.splits if_splits)
    have d: "get_stock_data t now s \<noteq> None"
      if "\<not> truthy live" "ticker_history t = Returned hist" "hist \<noteq> []"
        "numeric_or_missing info ''previousClose''"
      using get_stock_data_defined [OF info _ that(4), of "last hist"]
        resolve_history [of info t] that(1,2,3) live
      by simp
    have e: "get_stock_data t now s = None"
      if "\<not> truthy live" "ticker_history t = Raised \<or> ticker_history t = Returned []"
      using resolve_history [of info t] that live info
      by (auto simp: get_stock_data_def)
    note a b c d e
  }
  with raised show ?thesis by blast
qed

theorem price_fallback_chain_witness:
  "ticker_info aapl_ticker = Returned aapl_info \<and>
   py_or (dict_get aapl_info ''currentPrice'') (dict_get aapl_info ''regularMarketPrice'')
     = PNum (199996 / 1000) \<and>
   get_stock_data aapl_ticker noon ''aapl'' = Some rounded_quote \<and>
   price rounded_quote = py_round2 (199996 / 1000) \<and>
   ticker_info zero_price_ticker = Returned zero_price_info \<and>
   \<not> truthy (py_or (dict_get zero_price_info ''currentPrice'')
                 (dict_get zero_price_info ''regularMarketPrice'')) \<and>
   ticker_history zero_price_ticker = Returned [3, 5] \<and>
   numeric_or_missing zero_price_info ''previousClose'' \<and>
   get_stock_data zero_price_ticker noon ''x'' \<noteq> None \<and>
   ticker_history dead_ticker = Returned [] \<and>
   get_stock_data dead_ticker noon ''zzzz'' = None"
proof -
  have live: "ticker_info aapl_ticker = Returned aapl_info \<and>
      py_or (dict_get aapl_info ''currentPrice'') (dict_get aapl_info ''regularMarketPrice'')
        = PNum (199996 / 1000) \<and>
      truthy (PNum (199996 / 1000)) \<and>
      get_stock_data aapl_ticker noon ''aapl'' = Some rounded_quote"
    by code_simp
  have zero: "ticker_info zero_price_ticker = Returned zero_price_info \<and>
      \<not> truthy (py_or (dict_get zero_price_info ''currentPrice'')
                    (dict_get zero_price_info ''regularMarketPrice'')) \<and>
      ticker_history zero_price_ticker = Returned [3, 5] \<and> [3, 5::rat] \<noteq> [] \<and>
      numeric_or_missing zero_price_info ''previousClose''"
    by code_simp
  have dead: "ticker_info dead_ticker = Returned [] \<and>
      \<not> truthy (py_or (dict_get [] ''currentPrice'') (dict_get [] ''regularMarketPrice'')) \<and>
      ticker_history dead_ticker = Returned []"
    by code_simp
  from live price_fallback_chain
    [where t = aapl_ticker and info = aapl_info and now = noon and s = "''aapl''"
       and q = rounded_quote and live = "PNum (199996 / 1000)"]
  have a: "price rounded_quote = py_round2 (199996 / 1000)" by (metis pyval.inject(1))
  from zero price_fallback_chain
    [where t = zero_price_ticker and info = zero_price_info and now = noon and s = "''x''"
       and hist = "[3, 5]"
       and live = "py_or (dict_get zero_price_info ''currentPrice'')
                     (dict_get zero_price_info ''regularMarketPrice'')"]
  have b: "get_stock_data zero_price_ticker noon ''x'' \<noteq> None" by blast
  from dead price_fallback_chain
    [where t = dead_ticker and info = "[]" and now = noon and s = "''zzzz''"
       and live = "py_or (dict_get [] ''currentPrice'') (dict_get [] ''regularMarketPrice'')"]
  have c: "get_stock_data dead_ticker noon ''zzzz'' = None" by blast
  from live zero dead a b c show ?thesis by blast
qed

text \<open>
  C5 as stated fails: a live price field that is present with the value zero is not
  used; the last close of the history is.
\<close>

theorem zero_live_price_counterexample:
  "ticker_info zero_price_ticker = Returned zero_price_info \<and>
   map_of zero_price_info ''currentPrice'' = Some (PNum 0) \<and>
   ticker_history zero_price_ticker = Returned [3, 5] \<and>
   map_option price (get_stock_data zero_price_ticker noon ''x'') = Some 5"
  by code_simp




text \<open>
  C8. \<^verbatim>\<open>get_historical_data\<close> returns the samples of the symbol from the cutoff on (on
  an error, none) in non-decreasing order of their timestamps. It reads only the table
  of samples and writes nothing: after any commands that store no sample, the same
  query returns the same rows.
\<close>

theorem history_query_sorted_and_restartable:
  "sorted (map (\<lambda>r. dt_key (stock_timestamp r)) (get_historical_data ok d s c)) \<and>
   (\<forall>r \<in> set (get_historical_data ok d s c).
      r \<in> set (stocks d) \<and> stock_symbol r = upper s \<and> dt_key c \<le> dt_key (stock_timestamp r)) \<and>
   (ok \<longrightarrow> (\<forall>r \<in> set (stocks d).
      stock_symbol r = upper s \<and> dt_key c \<le> dt_key (stock_timestamp r) \<longrightarrow>
      r \<in> set (get_historical_data ok d s c))) \<and>
   (list_all (\<lambda>c. \<not> writes_samples c) cs \<longrightarrow>
      get_historical_data ok (perform_all d cs) s c = get_historical_data ok d s c)"
proof -
  have "sorted (map (\<lambda>r. dt_key (stock_timestamp r)) (get_historical_data ok d s c))"
    by (simp add: get_historical_data_def)
  moreover have "\<forall>r \<in> set (get_historical_data ok d s c).
      r \<in> set (stocks d) \<and> stock_symbol r = upper s \<and> dt_key c \<le> dt_key (stock_timestamp r)"
    by (simp add: get_historical_data_def)
  moreover have "ok \<longrightarrow> (\<forall>r \<in> set (stocks d).
      stock_symbol r = upper s \<and> dt_key c \<le> dt_key (stock_timestamp r) \<longrightarrow>
      r \<in> set (get_historical_data ok d s c))"
    by (simp add: get_historical_data_def)
  moreover have "list_all (\<lambda>c. \<not> writes_samples c) cs \<longrightarrow>
      get_historical_data ok (perform_all d cs) s c = get_historical_data ok d s c"
    using perform_all_keeps_stocks [of cs d] history_depends_on_stocks by blast
  ultimately show ?thesis by blast
qed

theorem history_query_sorted_and_restartable_witness:
  "list_all (\<lambda>c. \<not> writes_samples c) alert_commands \<and>
   map stock_id (get_historical_data True history_db ''aapl'' (noon\<lparr>day := 2\<rparr>)) = [3, 1] \<and>
   sorted (map (\<lambda>r. dt_key (stock_timestamp r))
     (get_historical_data True history_db ''aapl'' (noon\<lparr>day := 2\<rparr>))) \<and>
   get_historical_data True (perform_all history_db alert_commands) ''aapl'' (noon\<lparr>day := 2\<rparr>)
     = get_historical_data True history_db ''aapl'' (noon\<lparr>day := 2\<rparr>)"
proof -
  have facts: "list_all (\<lambda>c. \<not> writes_samples c) alert_commands \<and>
      map stock_id (get_historical_data True history_db ''aapl'' (noon\<lparr>day := 2\<rparr>)) = [3, 1]"
    by code_simp
  from facts history_query_sorted_and_restartable
    [of True history_db "''aapl''" "noon\<lparr>day := 2\<rparr>" alert_commands]
  show ?thesis by blast
qed






end
